theory Spec2Isabelle
  imports Complex_Main
begin

section \<open>Shared utilities of the loyalty application (\<^verbatim>\<open>window.AppUtils\<close>, src/app.js)\<close>

text \<open>
  JavaScript strings are modelled as \<^typ>\<open>string\<close>: a \<^typ>\<open>char\<close> is a code unit
  below 256, and \<^const>\<open>length\<close> is the string's \<^verbatim>\<open>length\<close>. The amount given to
  \<^verbatim>\<open>calculatePoints\<close> is an exact number (\<^typ>\<open>real\<close>) and its points an
  \<^typ>\<open>int\<close>. The numbers that \<^verbatim>\<open>getStatistics\<close> adds up are IEEE doubles, whose
  arithmetic is a parameter of the model of which nothing is assumed. A property that
  may be \<^verbatim>\<open>undefined\<close> is an \<^typ>\<open>'a option\<close>.
\<close>

subsection \<open>Phone numbers\<close>

text \<open>The character class \<^verbatim>\<open>\d\<close> of a JavaScript regular expression: the ten ASCII digits.\<close>

definition isDigit :: "char \<Rightarrow> bool" where
  "isDigit c = (c \<in> set ''0123456789'')"

text \<open>The character class \<^verbatim>\<open>[^\d+]\<close>: everything but a digit or a plus sign.\<close>

definition notDigitOrPlus :: "char \<Rightarrow> bool" where
  "notDigitOrPlus c = (\<not> (isDigit c \<or> c = CHR ''+''))"

text \<open>
  \<^verbatim>\<open>formatPhoneNumber(phone) { return phone.replace(/[^\d+]/g, ''); }\<close>
  The global replacement by the empty string deletes every character of the class.
\<close>

definition formatPhoneNumber :: "string \<Rightarrow> string" where
  "formatPhoneNumber phone = filter (\<lambda>c. \<not> notDigitOrPlus c) phone"

text \<open>\<^verbatim>\<open>phoneToEmail(phone)\<close>: the formatted phone followed by \<^verbatim>\<open>@butchery.local\<close>.\<close>

definition phoneToEmail :: "string \<Rightarrow> string" where
  "phoneToEmail phone = formatPhoneNumber phone @ ''@butchery.local''"

text \<open>
  The tail \<^verbatim>\<open>C{lo,hi}$\<close> of an anchored regular expression, run on the rest of the
  input: each character must be in the class \<open>C\<close>, at most \<open>hi\<close> of them are consumed,
  and the end of the input is accepted once at least \<open>lo\<close> were.
\<close>

fun match_repeat_end :: "(char \<Rightarrow> bool) \<Rightarrow> nat \<Rightarrow> nat \<Rightarrow> string \<Rightarrow> bool" where
  "match_repeat_end C lo hi [] = (lo = 0)"
| "match_repeat_end C lo hi (c # cs) = (0 < hi \<and> C c \<and> match_repeat_end C (lo - 1) (hi - 1) cs)"

text \<open>\<^verbatim>\<open>/^\+\d{10,15}$/.test(s)\<close>\<close>

definition phone_regex_test :: "string \<Rightarrow> bool" where
  "phone_regex_test s =
     (case s of [] \<Rightarrow> False | c # cs \<Rightarrow> c = CHR ''+'' \<and> match_repeat_end isDigit 10 15 cs)"

text \<open>
  \<^verbatim>\<open>isValidPhoneNumber(phone) {
      const formatted = this.formatPhoneNumber(phone);
      return /^\+\d{10,15}$/.test(formatted); }\<close>
\<close>

definition isValidPhoneNumber :: "string \<Rightarrow> bool" where
  "isValidPhoneNumber phone = (let formatted = formatPhoneNumber phone in phone_regex_test formatted)"

text \<open>
  The canonical phone form in the words of the specification (data model, Customer):
  a leading plus sign, then digits only, between 10 and 15 of them.
\<close>

definition canonical_phone :: "string \<Rightarrow> bool" where
  "canonical_phone s =
     (case s of [] \<Rightarrow> False
      | c # ds \<Rightarrow> c = CHR ''+'' \<and> list_all isDigit ds \<and> 10 \<le> length ds \<and> length ds \<le> 15)"

subsection \<open>Points\<close>

text \<open>\<^verbatim>\<open>calculatePoints(amount) { return Math.floor(amount / 100) * 5; }\<close>\<close>

definition calculatePoints :: "real \<Rightarrow> int" where
  "calculatePoints amount = \<lfloor>amount / 100\<rfloor> * 5"

subsection \<open>Error messages\<close>

text \<open>
  A caught error value: an object whose \<^verbatim>\<open>code\<close> and \<^verbatim>\<open>message\<close> properties are
  strings or \<^verbatim>\<open>undefined\<close>.
\<close>

record js_error =
  code :: "string option"
  message :: "string option"

text \<open>
  The values that \<^verbatim>\<open>getErrorMessage\<close> handles: \<^verbatim>\<open>undefined\<close>, a string, or the
  function or object that \<^verbatim>\<open>Object.prototype\<close> holds under a name (the object literal
  \<^verbatim>\<open>errorMessages\<close> inherits them).
\<close>

datatype js_value = Undefined | Str string | Inherited string

definition property :: "string option \<Rightarrow> js_value" where
  "property v = (case v of None \<Rightarrow> Undefined | Some s \<Rightarrow> Str s)"

text \<open>
  Truthiness: \<^verbatim>\<open>undefined\<close> and the empty string are falsy, functions and objects
  are truthy. \<^verbatim>\<open>a || b\<close> is \<open>a\<close> when \<open>a\<close> is truthy and \<open>b\<close> otherwise.
\<close>

fun truthy :: "js_value \<Rightarrow> bool" where
  "truthy Undefined = False"
| "truthy (Str s) = (s \<noteq> [])"
| "truthy (Inherited n) = True"

definition js_or :: "js_value \<Rightarrow> js_value \<Rightarrow> js_value" where
  "js_or a b = (if truthy a then a else b)"

text \<open>
  The object literal \<^verbatim>\<open>errorMessages\<close> of \<^verbatim>\<open>getErrorMessage\<close>, in the order of the
  source.
\<close>

definition errorMessages_table :: "(string \<times> string) list" where
  "errorMessages_table =
    [(''auth/user-not-found'', ''Account not found. Please check your phone number.''),
     (''auth/wrong-password'', ''Incorrect password. Please try again.''),
     (''auth/email-already-in-use'', ''An account with this phone number already exists.''),
     (''auth/weak-password'', ''Password should be at least 6 characters.''),
     (''auth/too-many-requests'', ''Too many failed attempts. Please try again later.''),
     (''auth/network-request-failed'', ''Network error. Please check your connection.''),
     (''permission-denied'', ''Permission denied. Please check your credentials.''),
     (''not-found'', ''Document not found.''),
     (''already-exists'', ''Document already exists.''),
     (''resource-exhausted'', ''Database quota exceeded. Please try again later.''),
     (''unauthenticated'', ''Authentication required. Please log in again.'')]"

definition errorMessages :: "string \<rightharpoonup> string" where
  "errorMessages = map_of errorMessages_table"

text \<open>The names of the properties of \<^verbatim>\<open>Object.prototype\<close> (ECMAScript, with Annex B).\<close>

definition object_prototype_names :: "string list" where
  "object_prototype_names =
    [''constructor'', ''hasOwnProperty'', ''isPrototypeOf'', ''propertyIsEnumerable'',
     ''toLocaleString'', ''toString'', ''valueOf'', ''__proto__'', ''__defineGetter__'',
     ''__defineSetter__'', ''__lookupGetter__'', ''__lookupSetter__'']"

text \<open>
  The property access \<^verbatim>\<open>errorMessages[code]\<close>: an own property of the literal, else a
  property inherited from \<^verbatim>\<open>Object.prototype\<close>, else \<^verbatim>\<open>undefined\<close>. The key
  \<^verbatim>\<open>undefined\<close> reads the property of that name, and so does a function or object
  through its string form; the literal has no such property.
\<close>

fun errorMessages_at :: "js_value \<Rightarrow> js_value" where
  "errorMessages_at (Str k) =
     (case errorMessages k of
        Some m \<Rightarrow> Str m
      | None \<Rightarrow> if k \<in> set object_prototype_names then Inherited k else Undefined)"
| "errorMessages_at Undefined = Undefined"
| "errorMessages_at (Inherited n) = Undefined"

text \<open>
  \<^verbatim>\<open>getErrorMessage(error) {
      const code = error.code || error.message;
      return errorMessages[code] || error.message || 'An unexpected error occurred.'; }\<close>
\<close>

definition getErrorMessage :: "js_error \<Rightarrow> js_value" where
  "getErrorMessage error =
     (let key = js_or (property (code error)) (property (message error))
      in js_or (js_or (errorMessages_at key) (property (message error)))
           (Str ''An unexpected error occurred.''))"

subsection \<open>Documents of the store\<close>

text \<open>
  A timestamp field is written as the sentinel \<^verbatim>\<open>FieldValue.serverTimestamp()\<close>, which
  the store replaces by its own time.
\<close>

datatype timestamp = serverTimestamp | Time nat

record stamped =
  createdAt :: timestamp

text \<open>The customer document that \<^verbatim>\<open>createCustomer\<close> writes under the formatted phone.\<close>

record customer_doc = stamped +
  points :: int
  name :: string
  uid :: string
  lastLogin :: timestamp

text \<open>
  Purchase and redemption documents carry the customer's phone. \<^verbatim>\<open>getStatistics\<close>
  reads \<^verbatim>\<open>amount\<close>, \<^verbatim>\<open>pointsEarned\<close> and \<^verbatim>\<open>pointsSpent\<close> with a default
  (\<^verbatim>\<open>data.amount || 0\<close>), so each may be missing from a document.
\<close>

record audit_doc = stamped +
  customerPhone :: string

record ('a, 'p) purchase_doc = audit_doc +
  amount :: "'a option"
  pointsEarned :: "'p option"

record 'p redemption_doc = audit_doc +
  tier :: string
  pointsSpent :: "'p option"

subsection \<open>Numbers of the statistics\<close>

text \<open>
  The numbers of the documents that \<^verbatim>\<open>getStatistics\<close> reads are IEEE doubles. Their
  arithmetic is a parameter, over a type \<open>'n\<close> of numbers: the literal \<^verbatim>\<open>0\<close>, the
  addition \<^verbatim>\<open>a + b\<close>, the subtraction \<^verbatim>\<open>a - b\<close>, and the numbers that are falsy
  (\<^verbatim>\<open>0\<close>, \<^verbatim>\<open>-0\<close> and \<^verbatim>\<open>NaN\<close>). Nothing is assumed of them: the addition of
  doubles rounds and is not associative.
\<close>

record 'n number_ops =
  num_zero :: 'n
  num_add :: "'n \<Rightarrow> 'n \<Rightarrow> 'n"
  num_sub :: "'n \<Rightarrow> 'n \<Rightarrow> 'n"
  num_falsy :: "'n \<Rightarrow> bool"

text \<open>
  \<^verbatim>\<open>x || 0\<close> on a numeric field: a missing field and a falsy number give the
  literal \<^verbatim>\<open>0\<close>, any other number is itself.
\<close>

definition or_zero :: "'n number_ops \<Rightarrow> 'n option \<Rightarrow> 'n" where
  "or_zero ops v =
     (case v of None \<Rightarrow> num_zero ops | Some x \<Rightarrow> if num_falsy ops x then num_zero ops else x)"

text \<open>
  Two arithmetics: the exact one of the reals, and a short one that keeps one decimal of
  a sum or difference below 10 and none from 10 on (rounding half up), whose addition,
  as that of doubles, is not associative.
\<close>

definition exact_numbers :: "real number_ops" where
  "exact_numbers =
     \<lparr>num_zero = 0, num_add = (\<lambda>a b. a + b), num_sub = (\<lambda>a b. a - b),
      num_falsy = (\<lambda>x. x = 0)\<rparr>"

definition round_short :: "real \<Rightarrow> real" where
  "round_short x =
     (if x < 10 then of_int \<lfloor>x * 10 + 1 / 2\<rfloor> / 10 else of_int \<lfloor>x + 1 / 2\<rfloor>)"

definition short_numbers :: "real number_ops" where
  "short_numbers =
     \<lparr>num_zero = 0, num_add = (\<lambda>a b. round_short (a + b)),
      num_sub = (\<lambda>a b. round_short (a - b)), num_falsy = (\<lambda>x. x = 0)\<rparr>"

subsection \<open>The hosted services\<close>

text \<open>
  The authentication service and the document store are not part of the repository. The
  calls that \<^verbatim>\<open>createCustomer\<close> and \<^verbatim>\<open>getStatistics\<close> await are parameters of the
  model, over a state \<open>'s\<close> of the services: a call either throws an error value or
  returns, and a call that writes returns the new state.
  \<^item> \<open>customer_get s id\<close>: \<^verbatim>\<open>db.collection('customers').doc(id).get()\<close>, the document
    if it exists;
  \<^item> \<open>customer_set s id d\<close>: \<^verbatim>\<open>db.collection('customers').doc(id).set(d)\<close>;
  \<^item> \<open>createUserWithEmailAndPassword s email password\<close>: the call of that name on
    \<^verbatim>\<open>auth\<close>, returning the new user;
  \<^item> \<open>customers_get\<close>, \<open>purchases_get\<close>, \<open>redemptions_get\<close>:
    \<^verbatim>\<open>db.collection(...).get()\<close>, the documents of a collection;
  \<^item> \<open>rejects_first s errors\<close>: of the reads started together that throw \<open>errors\<close>
    (listed in the order of the calls), the error of the one that throws first in time,
    which is what \<^verbatim>\<open>Promise.all\<close> rejects with.
\<close>

record fb_user =
  user_uid :: string

record ('s, 'n) firebase =
  customer_get :: "'s \<Rightarrow> string \<Rightarrow> js_error + customer_doc option"
  customer_set :: "'s \<Rightarrow> string \<Rightarrow> customer_doc \<Rightarrow> js_error + 's"
  createUserWithEmailAndPassword :: "'s \<Rightarrow> string \<Rightarrow> string \<Rightarrow> js_error + fb_user \<times> 's"
  customers_get :: "'s \<Rightarrow> js_error + customer_doc list"
  purchases_get :: "'s \<Rightarrow> js_error + ('n, 'n) purchase_doc list"
  redemptions_get :: "'s \<Rightarrow> js_error + 'n redemption_doc list"
  rejects_first :: "'s \<Rightarrow> js_error list \<Rightarrow> js_error"

text \<open>
  What a helper resolves to: \<^verbatim>\<open>{ success: true, ... }\<close> with its payload, or
  \<^verbatim>\<open>{ success: false, error: message }\<close>.
\<close>

datatype 'a response = Success 'a | Failure js_value

section \<open>Database helpers (\<^verbatim>\<open>window.DatabaseHelpers\<close>, src/app.js)\<close>

subsection \<open>Customer creation\<close>

text \<open>
  \<^verbatim>\<open>name.trim()\<close> removes white space and line terminators at both ends. Among the
  code units below 256 these are tab, line feed, vertical tab, form feed, carriage
  return, space and the no-break space U+00A0; the others (U+1680, U+2000 to U+200A,
  U+2028, U+2029, U+202F, U+205F, U+3000, U+FEFF) are not characters of this model.
\<close>

definition isWhiteSpace :: "char \<Rightarrow> bool" where
  "isWhiteSpace c =
     (c \<in> set [CHR 0x09, CHR 0x0A, CHR 0x0B, CHR 0x0C, CHR 0x0D, CHR 0x20, CHR 0xA0])"

definition trim :: "string \<Rightarrow> string" where
  "trim s = rev (dropWhile isWhiteSpace (rev (dropWhile isWhiteSpace s)))"

text \<open>The payload of a successful creation: \<^verbatim>\<open>{ user, phone }\<close>.\<close>

record created =
  user :: fb_user
  phone :: string

text \<open>
  \<^verbatim>\<open>async createCustomer(phoneNumber, password, name = '')\<close>. The two checks return
  before the first awaited call; the body runs in a \<^verbatim>\<open>try\<close> whose \<^verbatim>\<open>catch\<close> turns
  every thrown error into \<^verbatim>\<open>{ success: false, error: getErrorMessage(error) }\<close>. The
  state returned is the state of the services when the helper resolves: a write that
  was made before a later call threw stays made.
\<close>

definition createCustomer ::
  "('s, 'n) firebase \<Rightarrow> string \<Rightarrow> string \<Rightarrow> string \<Rightarrow> 's \<Rightarrow> created response \<times> 's" where
  "createCustomer fb phoneNumber password customerName s =
     (if \<not> isValidPhoneNumber phoneNumber then (Failure (Str ''Invalid phone number format''), s)
      else if length password < 6 then (Failure (Str ''Password must be at least 6 characters''), s)
      else
        let formattedPhone = formatPhoneNumber phoneNumber;
            email = phoneToEmail formattedPhone
        in case customer_get fb s formattedPhone of
             Inl error \<Rightarrow> (Failure (getErrorMessage error), s)
           | Inr (Some existingCustomer) \<Rightarrow>
               (Failure (Str ''Customer with this phone number already exists''), s)
           | Inr None \<Rightarrow>
               (case createUserWithEmailAndPassword fb s email password of
                  Inl error \<Rightarrow> (Failure (getErrorMessage error), s)
                | Inr (newUser, s1) \<Rightarrow>
                    (case customer_set fb s1 formattedPhone
                            \<lparr>createdAt = serverTimestamp, points = 0, name = trim customerName,
                             uid = user_uid newUser, lastLogin = serverTimestamp\<rparr> of
                       Inl error \<Rightarrow> (Failure (getErrorMessage error), s1)
                     | Inr s2 \<Rightarrow> (Success \<lparr>user = newUser, phone = formattedPhone\<rparr>, s2))))"

subsection \<open>Statistics\<close>

record 'n stats =
  totalCustomers :: nat
  totalPurchases :: nat
  totalRedemptions :: nat
  totalRevenue :: 'n
  totalPointsEarned :: 'n
  totalPointsRedeemed :: 'n
  activePoints :: 'n

text \<open>
  The bodies of the two \<^verbatim>\<open>forEach\<close> loops, on the running totals:
  \<^verbatim>\<open>totalRevenue += data.amount || 0; totalPointsEarned += data.pointsEarned || 0;\<close> and
  \<^verbatim>\<open>totalPointsRedeemed += data.pointsSpent || 0;\<close>
  The running total is the left operand of each addition.
\<close>

definition add_purchase :: "'n number_ops \<Rightarrow> ('n, 'n) purchase_doc \<Rightarrow> 'n \<times> 'n \<Rightarrow> 'n \<times> 'n" where
  "add_purchase ops data totals =
     (num_add ops (fst totals) (or_zero ops (amount data)),
      num_add ops (snd totals) (or_zero ops (pointsEarned data)))"

definition add_redemption :: "'n number_ops \<Rightarrow> 'n redemption_doc \<Rightarrow> 'n \<Rightarrow> 'n" where
  "add_redemption ops data redeemed = num_add ops redeemed (or_zero ops (pointsSpent data))"

text \<open>
  The statistics computed from the three snapshots, the totals starting at the literal
  \<^verbatim>\<open>0\<close> and the loops running over the documents in the order of the snapshot.
\<close>

definition statistics_of ::
  "'n number_ops \<Rightarrow> customer_doc list \<Rightarrow> ('n, 'n) purchase_doc list \<Rightarrow> 'n redemption_doc list
   \<Rightarrow> 'n stats" where
  "statistics_of ops customersSnapshot purchasesSnapshot redemptionsSnapshot =
     (let purchaseTotals =
            fold (add_purchase ops) purchasesSnapshot (num_zero ops, num_zero ops);
          redeemed = fold (add_redemption ops) redemptionsSnapshot (num_zero ops)
      in \<lparr>totalCustomers = length customersSnapshot,
          totalPurchases = length purchasesSnapshot,
          totalRedemptions = length redemptionsSnapshot,
          totalRevenue = fst purchaseTotals,
          totalPointsEarned = snd purchaseTotals,
          totalPointsRedeemed = redeemed,
          activePoints = num_sub ops (snd purchaseTotals) redeemed\<rparr>)"

text \<open>The error of a read that threw, as a list: empty when the read returned.\<close>

definition rejection :: "js_error + 'a \<Rightarrow> js_error list" where
  "rejection r = (case r of Inl error \<Rightarrow> [error] | Inr v \<Rightarrow> [])"

text \<open>
  \<^verbatim>\<open>async getStatistics()\<close>: the three reads are started together and awaited with
  \<^verbatim>\<open>Promise.all\<close>. When all three return, the statistics are computed; when some
  throw, the \<^verbatim>\<open>catch\<close> reports the error of the one that threw first in time. Nothing
  is written.
\<close>

definition getStatistics ::
  "'n number_ops \<Rightarrow> ('s, 'n) firebase \<Rightarrow> 's \<Rightarrow> 'n stats response \<times> 's" where
  "getStatistics ops fb s =
     (let customersRead = customers_get fb s;
          purchasesRead = purchases_get fb s;
          redemptionsRead = redemptions_get fb s;
          error = rejects_first fb s
            (rejection customersRead @ rejection purchasesRead @ rejection redemptionsRead)
      in case customersRead of
           Inl e \<Rightarrow> (Failure (getErrorMessage error), s)
         | Inr customersSnapshot \<Rightarrow>
             (case purchasesRead of
                Inl e \<Rightarrow> (Failure (getErrorMessage error), s)
              | Inr purchasesSnapshot \<Rightarrow>
                  (case redemptionsRead of
                     Inl e \<Rightarrow> (Failure (getErrorMessage error), s)
                   | Inr redemptionsSnapshot \<Rightarrow>
                       (Success (statistics_of ops customersSnapshot purchasesSnapshot
                          redemptionsSnapshot), s))))"

subsection \<open>An in-memory instance of the hosted services\<close>

text \<open>
  A store that keeps the three collections and the accounts in lists. Reads never throw;
  creating an account whose email is taken throws \<^verbatim>\<open>auth/email-already-in-use\<close>, as
  the authentication service does; the new user's id is its email; of several reads
  that throw, the first in the order of the calls throws first.
\<close>

record 'n memory =
  customer_docs :: "(string \<times> customer_doc) list"
  purchase_docs :: "('n, 'n) purchase_doc list"
  redemption_docs :: "'n redemption_doc list"
  accounts :: "(string \<times> string) list"

definition memory_firebase :: "('n memory, 'n) firebase" where
  "memory_firebase =
     \<lparr>customer_get = (\<lambda>s docId. Inr (map_of (customer_docs s) docId)),
      customer_set = (\<lambda>s docId d. Inr (s\<lparr>customer_docs := (docId, d) # customer_docs s\<rparr>)),
      createUserWithEmailAndPassword = (\<lambda>s email password.
        if map_of (accounts s) email \<noteq> None
        then Inl \<lparr>code = Some ''auth/email-already-in-use'', message = Some ''EMAIL_EXISTS''\<rparr>
        else Inr (\<lparr>user_uid = email\<rparr>, s\<lparr>accounts := (email, password) # accounts s\<rparr>)),
      customers_get = (\<lambda>s. Inr (map snd (customer_docs s))),
      purchases_get = (\<lambda>s. Inr (purchase_docs s)),
      redemptions_get = (\<lambda>s. Inr (redemption_docs s)),
      rejects_first = (\<lambda>s errors.
        case errors of [] \<Rightarrow> \<lparr>code = None, message = None\<rparr> | error # others \<Rightarrow> error)\<rparr>"

definition empty_memory :: "real memory" where
  "empty_memory = \<lparr>customer_docs = [], purchase_docs = [], redemption_docs = [], accounts = []\<rparr>"

section \<open>The points ledger of the specification\<close>

text \<open>
  The operations \<^verbatim>\<open>award_points\<close> and \<^verbatim>\<open>redeem_points\<close> belong to the helpers that
  src/app.js extends (\<^verbatim>\<open>...originalHelpers\<close>); the file that defines them is not among
  the sources. They are modelled from the specification (sections 3, 4.2, 4.3, 5 and 7),
  as single transitions of a ledger: the customers by normalized phone and the two
  append-only audit trails.
\<close>

datatype ledger_error = CustomerNotFound | InvalidAmount | InsufficientPoints | InvalidTier

record ledger =
  customers :: "string \<rightharpoonup> customer_doc"
  purchases :: "(real, int) purchase_doc list"
  redemptions :: "int redemption_doc list"

text \<open>
  Modelled from the spec: \<^verbatim>\<open>award_points(customerPhone, amount)\<close> of section 4.2, whose
  source is missing. The customer is looked up by normalized phone (\<open>CustomerNotFound\<close>
  if absent), the points are computed by the source's \<open>calculatePoints\<close>, and in one
  step the balance is incremented and a Purchase record with the same amount and points
  is appended; the result is the pair of the new balance and the points earned. A failed
  call leaves the ledger as it was (section 5).
\<close>

definition award_points ::
  "string \<Rightarrow> real \<Rightarrow> ledger \<Rightarrow> (ledger_error + int \<times> int) \<times> ledger" where
  "award_points phoneNumber amt l =
     (let p = formatPhoneNumber phoneNumber
      in case customers l p of
           None \<Rightarrow> (Inl CustomerNotFound, l)
         | Some c \<Rightarrow>
             (let earned = calculatePoints amt
              in (Inr (points c + earned, earned),
                  l\<lparr>customers := (customers l)(p \<mapsto> c\<lparr>points := points c + earned\<rparr>),
                    purchases := purchases l @
                      [\<lparr>createdAt = serverTimestamp, customerPhone = p,
                        amount = Some amt, pointsEarned = Some earned\<rparr>]\<rparr>)))"

text \<open>
  Modelled from the spec: the closed table of reward tiers of section 4.3 (the points a
  tier costs), whose source is missing.
\<close>

definition tier_cost :: "string \<Rightarrow> int option" where
  "tier_cost tierName =
     (if tierName = ''small'' then Some 100
      else if tierName = ''large'' then Some 180
      else None)"

text \<open>
  Modelled from the spec: \<^verbatim>\<open>redeem_points(customerPhone, tier)\<close> of section 4.3, whose
  source is missing. The customer is looked up (\<open>CustomerNotFound\<close> if absent), a tier
  outside the table is \<open>InvalidTier\<close>, a balance below the tier's cost is
  \<open>InsufficientPoints\<close>; otherwise, in one step, the balance is decremented by the cost
  and a Redemption record is appended; the result is the pair of the new balance and the
  points spent. A failed call leaves the ledger as it was (section 5).
\<close>

definition redeem_points ::
  "string \<Rightarrow> string \<Rightarrow> ledger \<Rightarrow> (ledger_error + int \<times> int) \<times> ledger" where
  "redeem_points phoneNumber tierName l =
     (let p = formatPhoneNumber phoneNumber
      in case customers l p of
           None \<Rightarrow> (Inl CustomerNotFound, l)
         | Some c \<Rightarrow>
             (case tier_cost tierName of
                None \<Rightarrow> (Inl InvalidTier, l)
              | Some spent \<Rightarrow>
                  if points c < spent then (Inl InsufficientPoints, l)
                  else
                    (Inr (points c - spent, spent),
                     l\<lparr>customers := (customers l)(p \<mapsto> c\<lparr>points := points c - spent\<rparr>),
                       redemptions := redemptions l @
                         [\<lparr>createdAt = serverTimestamp, customerPhone = p,
                           tier = tierName, pointsSpent = Some spent\<rparr>]\<rparr>)))"

text \<open>A ledger with one customer of a given balance and empty audit trails.\<close>

definition customer_with :: "int \<Rightarrow> customer_doc" where
  "customer_with balance =
     \<lparr>createdAt = Time 0, points = balance, name = ''Test Customer'',
      uid = ''firebase-auth-uid'', lastLogin = Time 0\<rparr>"

definition single_customer_ledger :: "string \<Rightarrow> int \<Rightarrow> ledger" where
  "single_customer_ledger p balance =
     \<lparr>customers = [p \<mapsto> customer_with balance], purchases = [], redemptions = []\<rparr>"

text \<open>
  A state of the in-memory services: one customer, three purchases (the last one without
  amount and points) and one redemption.
\<close>

definition sample_memory :: "real memory" where
  "sample_memory =
     \<lparr>customer_docs = [(''+12345678901'', customer_with 10)],
      purchase_docs =
        [\<lparr>createdAt = Time 1, customerPhone = ''+12345678901'', amount = Some 1000,
          pointsEarned = Some 50\<rparr>,
         \<lparr>createdAt = Time 2, customerPhone = ''+12345678901'', amount = Some (2501 / 2),
          pointsEarned = Some 60\<rparr>,
         \<lparr>createdAt = Time 3, customerPhone = ''+12345678901'', amount = None,
          pointsEarned = None\<rparr>],
      redemption_docs =
        [\<lparr>createdAt = Time 4, customerPhone = ''+12345678901'', tier = ''small'',
          pointsSpent = Some 100\<rparr>],
      accounts = [(''+12345678901@butchery.local'', ''secret1'')]\<rparr>"

text \<open>A purchase document of a given amount, with the points of that amount.\<close>

definition purchase_of :: "real \<Rightarrow> (real, real) purchase_doc" where
  "purchase_of amt =
     \<lparr>createdAt = Time 0, customerPhone = ''+12345678901'', amount = Some amt,
      pointsEarned = Some (of_int (calculatePoints amt))\<rparr>"

section \<open>Properties\<close>

subsection \<open>Points calculation\<close>

lemma floor_hundredth_small: "0 \<le> (a::real) \<Longrightarrow> a < 100 \<Longrightarrow> \<lfloor>a / 100\<rfloor> = 0"
  by (simp add: floor_eq_iff)

lemma floor_hundredth_negative: "(a::real) < 0 \<Longrightarrow> \<lfloor>a / 100\<rfloor> \<le> - 1"
  by (simp add: floor_le_iff)

text \<open>
  Claim C1. For every amount that is not negative, \<open>calculatePoints\<close> returns five times
  the floor of a hundredth of the amount; below 100 that is 0; and the amounts
  0, 99, 100, 250 and 1000 give 0, 0, 5, 10 and 50 points. The function is a function of
  its argument alone.
\<close>

theorem calculatePoints_rule:
  assumes "0 \<le> amt"
  shows "calculatePoints amt = 5 * \<lfloor>amt / 100\<rfloor>
    \<and> (if amt < 100 then calculatePoints amt = 0 else 5 \<le> calculatePoints amt)
    \<and> map calculatePoints [0, 99, 100, 250, 1000] = [0, 0, 5, 10, 50]"
proof -
  have rule: "calculatePoints amt = 5 * \<lfloor>amt / 100\<rfloor>"
    by (simp add: calculatePoints_def)
  have small: "calculatePoints amt = 0" if "amt < 100"
    using assms that by (simp add: calculatePoints_def floor_hundredth_small)
  have large: "5 \<le> calculatePoints amt" if "\<not> amt < 100"
  proof -
    from that have "1 \<le> \<lfloor>amt / 100\<rfloor>" by (simp add: le_floor_iff)
    then show ?thesis by (simp add: calculatePoints_def)
  qed
  have table: "map calculatePoints [0, 99, 100, 250, 1000] = [0, 0, 5, 10, 50]"
    by (simp add: calculatePoints_def)
  from rule small large table show ?thesis by simp
qed

theorem calculatePoints_rule_witness:
  "calculatePoints 250 = 5 * \<lfloor>250 / 100 :: real\<rfloor> \<and> 5 \<le> calculatePoints 250
    \<and> calculatePoints 250 = 10"
  using calculatePoints_rule [of 250] by simp

text \<open>
  Claim C2, as the code has it. \<open>calculatePoints\<close> has no check of its argument and
  raises nothing: a negative amount gives the same rule's value, a negative multiple of
  five (at most \<open>-5\<close>).
\<close>

theorem calculatePoints_negative:
  assumes "amt < 0"
  shows "calculatePoints amt = 5 * \<lfloor>amt / 100\<rfloor> \<and> calculatePoints amt \<le> - 5"
  using floor_hundredth_negative [OF assms] by (simp add: calculatePoints_def)

theorem calculatePoints_negative_witness:
  "calculatePoints (- 250) = 5 * \<lfloor>- 250 / 100 :: real\<rfloor> \<and> calculatePoints (- 250) = - 15"
  using calculatePoints_negative [of "- 250"] by simp

text \<open>
  Claim C2, as the specification states it, fails: the amount \<open>-50\<close> is not rejected,
  the call returns the number \<open>-5\<close>.
\<close>

theorem calculatePoints_negative_counterexample:
  "(- 50 :: real) < 0 \<and> calculatePoints (- 50) = - 5"
  by (simp add: calculatePoints_def)

subsection \<open>Phone numbers\<close>

lemma match_repeat_end_iff:
  "match_repeat_end C lo hi cs \<longleftrightarrow> list_all C cs \<and> lo \<le> length cs \<and> length cs \<le> hi"
proof (induction cs arbitrary: lo hi)
  case Nil
  then show ?case by simp
next
  case (Cons c cs)
  show ?case
    by (cases hi) (auto simp: Cons.IH)
qed

text \<open>
  Claim C8. For every input string, \<open>isValidPhoneNumber\<close> is true exactly when the
  string's \<open>formatPhoneNumber\<close> is in the canonical phone form: one leading plus sign
  followed by digits only, between 10 and 15 of them.
\<close>

theorem isValidPhoneNumber_canonical:
  "isValidPhoneNumber phoneNumber = canonical_phone (formatPhoneNumber phoneNumber)"
  by (simp add: isValidPhoneNumber_def phone_regex_test_def canonical_phone_def
      match_repeat_end_iff split: list.split)

theorem isValidPhoneNumber_canonical_witness:
  "isValidPhoneNumber ''+1 (234) 567-8901'' \<and> canonical_phone ''+12345678901''
   \<and> \<not> isValidPhoneNumber ''1 (234) 567-8901'' \<and> \<not> canonical_phone ''12345678901''"
  using isValidPhoneNumber_canonical [of "''+1 (234) 567-8901''"]
    isValidPhoneNumber_canonical [of "''1 (234) 567-8901''"]
  by (simp add: formatPhoneNumber_def notDigitOrPlus_def isDigit_def canonical_phone_def)

text \<open>
  Claim C9. \<open>formatPhoneNumber\<close> is idempotent: formatting a formatted phone number
  changes nothing.
\<close>

theorem formatPhoneNumber_idempotent:
  "formatPhoneNumber (formatPhoneNumber phoneNumber) = formatPhoneNumber phoneNumber"
  by (simp add: formatPhoneNumber_def)

theorem formatPhoneNumber_idempotent_witness:
  "formatPhoneNumber ''+1 (234) 567-8901'' = ''+12345678901''
   \<and> formatPhoneNumber ''+12345678901'' = ''+12345678901''"
  using formatPhoneNumber_idempotent [of "''+1 (234) 567-8901''"]
  by (simp add: formatPhoneNumber_def notDigitOrPlus_def isDigit_def)

subsection \<open>Error messages\<close>

lemma errorMessages_distinct: "distinct (map snd errorMessages_table)"
  by (simp add: errorMessages_table_def)

lemma errorMessages_nonempty:
  assumes "errorMessages k = Some m"
  shows "k \<noteq> [] \<and> m \<noteq> []"
proof -
  from assms have "(k, m) \<in> set errorMessages_table"
    by (simp add: errorMessages_def map_of_SomeD)
  then show ?thesis
    by (auto simp: errorMessages_table_def)
qed

lemma errorMessages_injective:
  assumes "errorMessages k = Some m" and "errorMessages k' = Some m"
  shows "k = k'"
proof -
  from assms have "(k, m) \<in> set errorMessages_table" and "(k', m) \<in> set errorMessages_table"
    by (simp_all add: errorMessages_def map_of_SomeD)
  moreover have "inj_on snd (set errorMessages_table)"
    using errorMessages_distinct by (simp add: distinct_map)
  ultimately show ?thesis
    using inj_onD [of snd "set errorMessages_table" "(k, m)" "(k', m)"] by simp
qed

text \<open>
  Claim C7, as the code has it. When the error's code is one of the recognized kinds,
  \<open>getErrorMessage\<close> returns that kind's message, and two kinds never share a message.
  When the code is a non-empty string that is neither a recognized kind nor the name of
  a property inherited from \<^verbatim>\<open>Object.prototype\<close>, the result is the error's own message
  if it has a non-empty one, and the generic message otherwise: one or the other, never
  both.
\<close>

theorem getErrorMessage_cases:
  "(code e = Some k \<and> errorMessages k = Some m \<longrightarrow> getErrorMessage e = Str m)
   \<and> (errorMessages k = Some m \<and> errorMessages k' = Some m \<longrightarrow> k = k')
   \<and> (code e = Some k \<and> k \<noteq> [] \<and> errorMessages k = None \<and> k \<notin> set object_prototype_names \<longrightarrow>
        getErrorMessage e =
          (case message e of
             None \<Rightarrow> Str ''An unexpected error occurred.''
           | Some detail \<Rightarrow>
               if detail \<noteq> [] then Str detail else Str ''An unexpected error occurred.''))"
proof (intro conjI impI)
  assume a: "code e = Some k \<and> errorMessages k = Some m"
  then have "k \<noteq> []" and "m \<noteq> []"
    using errorMessages_nonempty by blast+
  with a show "getErrorMessage e = Str m"
    by (simp add: getErrorMessage_def js_or_def property_def)
next
  assume "errorMessages k = Some m \<and> errorMessages k' = Some m"
  then show "k = k'"
    using errorMessages_injective by blast
next
  assume "code e = Some k \<and> k \<noteq> [] \<and> errorMessages k = None \<and> k \<notin> set object_prototype_names"
  then show "getErrorMessage e =
          (case message e of
             None \<Rightarrow> Str ''An unexpected error occurred.''
           | Some detail \<Rightarrow>
               if detail \<noteq> [] then Str detail else Str ''An unexpected error occurred.'')"
    by (simp add: getErrorMessage_def js_or_def property_def split: option.splits)
qed

theorem getErrorMessage_cases_witness:
  "getErrorMessage \<lparr>code = Some ''not-found'', message = Some ''NOT_FOUND: no document''\<rparr>
     = Str ''Document not found.''
   \<and> getErrorMessage \<lparr>code = Some ''unavailable'', message = Some ''Backend down''\<rparr>
     = Str ''Backend down''"
  using getErrorMessage_cases [of "\<lparr>code = Some ''not-found'', message = Some ''NOT_FOUND: no document''\<rparr>"
      "''not-found''" "''Document not found.''" "''not-found''"]
    getErrorMessage_cases [of "\<lparr>code = Some ''unavailable'', message = Some ''Backend down''\<rparr>"
      "''unavailable''" "''Document not found.''" "''not-found''"]
  by (simp add: errorMessages_def errorMessages_table_def object_prototype_names_def)

text \<open>
  Claim C7, as the specification states it, fails in its last part: for the unrecognized
  code \<^verbatim>\<open>unavailable\<close> with the detail \<^verbatim>\<open>Backend down\<close> the result is the detail alone,
  without any generic message; the generic message appears only when there is no detail.
\<close>

theorem getErrorMessage_fallback_counterexample:
  "errorMessages ''unavailable'' = None
   \<and> getErrorMessage \<lparr>code = Some ''unavailable'', message = Some ''Backend down''\<rparr>
       = Str ''Backend down''
   \<and> getErrorMessage \<lparr>code = Some ''unavailable'', message = None\<rparr>
       = Str ''An unexpected error occurred.''"
  by (simp add: getErrorMessage_def js_or_def property_def errorMessages_def
      errorMessages_table_def object_prototype_names_def)

text \<open>
  The codes left out above: a code that names a property of \<^verbatim>\<open>Object.prototype\<close> reads
  that inherited function, which is truthy, and \<open>getErrorMessage\<close> returns it instead
  of a message.
\<close>

lemma getErrorMessage_inherited:
  "getErrorMessage \<lparr>code = Some ''constructor'', message = Some ''Backend down''\<rparr>
     = Inherited ''constructor''"
  by (simp add: getErrorMessage_def js_or_def property_def errorMessages_def
      errorMessages_table_def object_prototype_names_def)

subsection \<open>Statistics\<close>

lemma fold_add_purchase:
  "fold (add_purchase ops) ps acc =
     (foldl (num_add ops) (fst acc) (map (\<lambda>d. or_zero ops (amount d)) ps),
      foldl (num_add ops) (snd acc) (map (\<lambda>d. or_zero ops (pointsEarned d)) ps))"
  by (induction ps arbitrary: acc) (simp_all add: add_purchase_def)

lemma fold_add_redemption:
  "fold (add_redemption ops) rs acc =
     foldl (num_add ops) acc (map (\<lambda>d. or_zero ops (pointsSpent d)) rs)"
  by (induction rs arbitrary: acc) (simp_all add: add_redemption_def)

text \<open>
  Claim C6. Whatever the customer, purchase and redemption documents that the store
  returns, \<open>getStatistics\<close> succeeds with the statistics in which \<open>totalRevenue\<close> is
  the sum of the purchases' amounts, \<open>totalPointsEarned\<close> the sum of their
  \<open>pointsEarned\<close> and \<open>totalPointsRedeemed\<close> the sum of the redemptions'
  \<open>pointsSpent\<close>, and \<open>activePoints\<close> is the difference of the last two; the state of
  the services is left as it was. Each sum is the sum as the code's numbers add: from
  the literal \<^verbatim>\<open>0\<close>, one document after the other in the order of the snapshot, a
  missing or falsy field counting as \<^verbatim>\<open>0\<close>. Nothing is assumed of the addition and
  the subtraction.
\<close>

theorem getStatistics_sums:
  assumes "customers_get fb s = Inr cs"
    and "purchases_get fb s = Inr ps"
    and "redemptions_get fb s = Inr rs"
    and "getStatistics ops fb s = (r, s')"
  shows "r = Success (statistics_of ops cs ps rs) \<and> s' = s
    \<and> totalRevenue (statistics_of ops cs ps rs)
        = foldl (num_add ops) (num_zero ops) (map (\<lambda>d. or_zero ops (amount d)) ps)
    \<and> totalPointsEarned (statistics_of ops cs ps rs)
        = foldl (num_add ops) (num_zero ops) (map (\<lambda>d. or_zero ops (pointsEarned d)) ps)
    \<and> totalPointsRedeemed (statistics_of ops cs ps rs)
        = foldl (num_add ops) (num_zero ops) (map (\<lambda>d. or_zero ops (pointsSpent d)) rs)
    \<and> activePoints (statistics_of ops cs ps rs)
        = num_sub ops (totalPointsEarned (statistics_of ops cs ps rs))
            (totalPointsRedeemed (statistics_of ops cs ps rs))"
proof -
  have "getStatistics ops fb s = (Success (statistics_of ops cs ps rs), s)"
    using assms(1-3) by (simp add: getStatistics_def)
  with assms(4) have res: "r = Success (statistics_of ops cs ps rs) \<and> s' = s"
    by simp
  show ?thesis
    using res by (simp add: statistics_of_def Let_def fold_add_purchase fold_add_redemption)
qed

theorem getStatistics_sums_witness:
  "getStatistics exact_numbers memory_firebase sample_memory =
     (Success \<lparr>totalCustomers = 1, totalPurchases = 3, totalRedemptions = 1,
        totalRevenue = 4501 / 2, totalPointsEarned = 110, totalPointsRedeemed = 100,
        activePoints = 10\<rparr>, sample_memory)"
proof -
  let ?r = "fst (getStatistics exact_numbers memory_firebase sample_memory)"
  let ?s = "snd (getStatistics exact_numbers memory_firebase sample_memory)"
  let ?st = "statistics_of exact_numbers (map snd (customer_docs sample_memory))
      (purchase_docs sample_memory) (redemption_docs sample_memory)"
  have "?r = Success ?st \<and> ?s = sample_memory
      \<and> totalRevenue ?st = foldl (num_add exact_numbers) (num_zero exact_numbers)
          (map (\<lambda>d. or_zero exact_numbers (amount d)) (purchase_docs sample_memory))
      \<and> totalPointsEarned ?st = foldl (num_add exact_numbers) (num_zero exact_numbers)
          (map (\<lambda>d. or_zero exact_numbers (pointsEarned d)) (purchase_docs sample_memory))
      \<and> totalPointsRedeemed ?st = foldl (num_add exact_numbers) (num_zero exact_numbers)
          (map (\<lambda>d. or_zero exact_numbers (pointsSpent d)) (redemption_docs sample_memory))
      \<and> activePoints ?st = num_sub exact_numbers (totalPointsEarned ?st) (totalPointsRedeemed ?st)"
    using getStatistics_sums [of memory_firebase sample_memory
        "map snd (customer_docs sample_memory)" "purchase_docs sample_memory"
        "redemption_docs sample_memory" exact_numbers ?r ?s]
    by (simp add: memory_firebase_def)
  moreover have "totalCustomers ?st = 1" "totalPurchases ?st = 3" "totalRedemptions ?st = 1"
    by (simp_all add: statistics_of_def Let_def sample_memory_def)
  ultimately have "?r = Success ?st \<and> ?s = sample_memory
      \<and> ?st = \<lparr>totalCustomers = 1, totalPurchases = 3, totalRedemptions = 1,
        totalRevenue = 4501 / 2, totalPointsEarned = 110, totalPointsRedeemed = 100,
        activePoints = 10\<rparr>"
    by (simp add: sample_memory_def exact_numbers_def or_zero_def stats.equality)
  then show ?thesis
    by (simp add: prod_eq_iff)
qed

text \<open>
  With the exact arithmetic each of these sums is the sum of the list. With an addition
  that rounds, the revenue depends on the order of the documents: 9.9, 0.4 and 0.4 add
  up to 10 in this order and to 11 in the reverse order.
\<close>

lemma foldl_exact_numbers:
  "foldl (num_add exact_numbers) a xs = a + sum_list xs"
  by (induction xs arbitrary: a) (simp_all add: exact_numbers_def add.assoc)

lemma statistics_order_dependent:
  "totalRevenue (statistics_of short_numbers [] (map purchase_of [99 / 10, 4 / 10, 4 / 10]) []) = 10
   \<and> totalRevenue (statistics_of short_numbers [] (map purchase_of [4 / 10, 4 / 10, 99 / 10]) []) = 11"
  by (simp add: statistics_of_def Let_def add_purchase_def or_zero_def short_numbers_def
      round_short_def purchase_of_def)

subsection \<open>Customer creation\<close>

text \<open>
  Claim C10. When the phone number fails \<open>isValidPhoneNumber\<close> or the password has
  fewer than 6 characters, \<open>createCustomer\<close> resolves to a failure with the message of
  the first failed check, whatever the services would do: none of their calls is made,
  and their state, with its accounts and customer documents, is the one before the call.
\<close>

theorem createCustomer_rejects_invalid:
  assumes "\<not> isValidPhoneNumber phoneNumber \<or> length password < 6"
  shows "createCustomer fb phoneNumber password customerName s =
     (Failure (Str (if \<not> isValidPhoneNumber phoneNumber then ''Invalid phone number format''
                    else ''Password must be at least 6 characters'')), s)"
  using assms by (auto simp: createCustomer_def)

theorem createCustomer_rejects_invalid_witness:
  "createCustomer memory_firebase ''1 (234) 567-8901'' ''secret1'' ''Ann'' empty_memory
     = (Failure (Str ''Invalid phone number format''), empty_memory)
   \<and> createCustomer memory_firebase ''+1 (234) 567-8901'' ''secr'' ''Ann'' empty_memory
     = (Failure (Str ''Password must be at least 6 characters''), empty_memory)"
  using createCustomer_rejects_invalid [of "''1 (234) 567-8901''" "''secret1''" memory_firebase
      "''Ann''" empty_memory]
    createCustomer_rejects_invalid [of "''+1 (234) 567-8901''" "''secr''" memory_firebase
      "''Ann''" empty_memory]
  by (simp add: isValidPhoneNumber_def phone_regex_test_def formatPhoneNumber_def
      notDigitOrPlus_def isDigit_def)

subsection \<open>The points ledger\<close>

text \<open>
  Claim C3. For an existing customer and an amount that is not negative,
  \<open>award_points\<close> adds exactly the points that \<open>calculatePoints\<close> gives for the
  amount to that customer's balance, appends
  exactly one Purchase record with the amount and the same points, changes nothing else,
  and returns the new balance; when no customer exists for the normalized phone it fails
  with \<open>CustomerNotFound\<close> and the ledger is unchanged. Atomicity is the single
  transition of the model: a call gives both writes or none.
\<close>

theorem award_points_effect:
  assumes "p = formatPhoneNumber phoneNumber"
    and "award_points phoneNumber amt l = (r, l')"
  shows "(customers l p = None \<longrightarrow> r = Inl CustomerNotFound \<and> l' = l)
    \<and> (\<forall>c. customers l p = Some c \<and> 0 \<le> amt \<longrightarrow>
          r = Inr (points c + calculatePoints amt, calculatePoints amt)
        \<and> customers l' = (customers l)(p \<mapsto> c\<lparr>points := points c + calculatePoints amt\<rparr>)
        \<and> purchases l' = purchases l @
             [\<lparr>createdAt = serverTimestamp, customerPhone = p, amount = Some amt,
               pointsEarned = Some (calculatePoints amt)\<rparr>]
        \<and> redemptions l' = redemptions l)"
  using assms by (auto simp: award_points_def Let_def)

theorem award_points_effect_witness:
  "award_points ''+1 (234) 567-8901'' 250 (single_customer_ledger ''+12345678901'' 150)
     = (Inr (160, 10),
        \<lparr>customers = [''+12345678901'' \<mapsto> customer_with 160],
         purchases = [\<lparr>createdAt = serverTimestamp, customerPhone = ''+12345678901'',
                       amount = Some 250, pointsEarned = Some 10\<rparr>],
         redemptions = []\<rparr>)
   \<and> award_points ''+1 (999) 567-8901'' 250 (single_customer_ledger ''+12345678901'' 150)
     = (Inl CustomerNotFound, single_customer_ledger ''+12345678901'' 150)"
proof -
  let ?l = "single_customer_ledger ''+12345678901'' 150"
  let ?a = "award_points ''+1 (234) 567-8901'' 250 ?l"
  let ?b = "award_points ''+1 (999) 567-8901'' 250 ?l"
  have fmt: "formatPhoneNumber ''+1 (234) 567-8901'' = ''+12345678901''"
    "formatPhoneNumber ''+1 (999) 567-8901'' = ''+19995678901''"
    by (simp_all add: formatPhoneNumber_def notDigitOrPlus_def isDigit_def)
  have pts: "calculatePoints 250 = 10"
    by (simp add: calculatePoints_def)
  have "fst ?a = Inr (160, 10) \<and> customers (snd ?a) = [''+12345678901'' \<mapsto> customer_with 160]
      \<and> purchases (snd ?a) = [\<lparr>createdAt = serverTimestamp, customerPhone = ''+12345678901'',
                       amount = Some 250, pointsEarned = Some 10\<rparr>]
      \<and> redemptions (snd ?a) = []"
    using award_points_effect [of "''+12345678901''" "''+1 (234) 567-8901''" 250 ?l
        "fst ?a" "snd ?a"]
    by (simp add: fmt pts single_customer_ledger_def customer_with_def)
  then have a: "?a = (Inr (160, 10),
        \<lparr>customers = [''+12345678901'' \<mapsto> customer_with 160],
         purchases = [\<lparr>createdAt = serverTimestamp, customerPhone = ''+12345678901'',
                       amount = Some 250, pointsEarned = Some 10\<rparr>],
         redemptions = []\<rparr>)"
    by (simp add: prod_eq_iff ledger.equality)
  have "fst ?b = Inl CustomerNotFound \<and> snd ?b = ?l"
    using award_points_effect [of "''+19995678901''" "''+1 (999) 567-8901''" 250 ?l
        "fst ?b" "snd ?b"]
    by (simp add: fmt single_customer_ledger_def)
  then have b: "?b = (Inl CustomerNotFound, ?l)"
    by (simp add: prod_eq_iff)
  from a b show ?thesis by simp
qed

text \<open>
  Claim C4. For an existing customer whose points are strictly below the cost of the
  requested tier (100 for \<^verbatim>\<open>small\<close>, 180 for \<^verbatim>\<open>large\<close>), \<open>redeem_points\<close> fails with
  \<open>InsufficientPoints\<close> and the ledger, with the customer's balance, is unchanged; the
  witness is the customer with 179 points asking for \<^verbatim>\<open>large\<close>.
\<close>

theorem redeem_points_insufficient:
  assumes "customers l (formatPhoneNumber phoneNumber) = Some c"
    and "tierName = ''small'' \<and> points c < 100 \<or> tierName = ''large'' \<and> points c < 180"
  shows "redeem_points phoneNumber tierName l = (Inl InsufficientPoints, l)"
  using assms by (auto simp: redeem_points_def tier_cost_def Let_def)

theorem redeem_points_insufficient_witness:
  "redeem_points ''+1 (234) 567-8901'' ''large'' (single_customer_ledger ''+12345678901'' 179)
     = (Inl InsufficientPoints, single_customer_ledger ''+12345678901'' 179)
   \<and> map_option points
        (customers (snd (redeem_points ''+1 (234) 567-8901'' ''large''
           (single_customer_ledger ''+12345678901'' 179))) ''+12345678901'') = Some 179"
  using redeem_points_insufficient [of "single_customer_ledger ''+12345678901'' 179"
      "''+1 (234) 567-8901''" "customer_with 179" "''large''"]
  by (simp add: formatPhoneNumber_def notDigitOrPlus_def isDigit_def single_customer_ledger_def
      customer_with_def)

text \<open>
  Claim C5. On a customer with exactly 100 points, \<open>redeem_points\<close> for \<^verbatim>\<open>small\<close>
  succeeds with the new balance 0 and appends a Redemption record with
  \<open>pointsSpent = 100\<close>; the same call on the resulting ledger fails with
  \<open>InsufficientPoints\<close>.
\<close>

theorem redeem_points_small_at_100:
  assumes "p = formatPhoneNumber phoneNumber"
    and "customers l p = Some c"
    and "points c = 100"
    and "redeem_points phoneNumber ''small'' l = (r, l')"
  shows "r = Inr (0, 100)
    \<and> customers l' = (customers l)(p \<mapsto> c\<lparr>points := 0\<rparr>)
    \<and> purchases l' = purchases l
    \<and> redemptions l' = redemptions l @
         [\<lparr>createdAt = serverTimestamp, customerPhone = p, tier = ''small'',
           pointsSpent = Some 100\<rparr>]
    \<and> redeem_points phoneNumber ''small'' l' = (Inl InsufficientPoints, l')"
proof -
  from assms have first: "r = Inr (0, 100)"
    "l' = l\<lparr>customers := (customers l)(p \<mapsto> c\<lparr>points := 0\<rparr>),
            redemptions := redemptions l @
              [\<lparr>createdAt = serverTimestamp, customerPhone = p, tier = ''small'',
                pointsSpent = Some 100\<rparr>]\<rparr>"
    by (auto simp: redeem_points_def tier_cost_def Let_def)
  then have "customers l' p = Some (c\<lparr>points := 0\<rparr>)"
    by simp
  then have again: "redeem_points phoneNumber ''small'' l' = (Inl InsufficientPoints, l')"
    using assms(1) by (simp add: redeem_points_def tier_cost_def Let_def)
  from first again show ?thesis by simp
qed

theorem redeem_points_small_at_100_witness:
  "redeem_points ''+1 (234) 567-8901'' ''small'' (single_customer_ledger ''+12345678901'' 100)
     = (Inr (0, 100),
        \<lparr>customers = [''+12345678901'' \<mapsto> customer_with 0], purchases = [],
         redemptions = [\<lparr>createdAt = serverTimestamp, customerPhone = ''+12345678901'',
                          tier = ''small'', pointsSpent = Some 100\<rparr>]\<rparr>)
   \<and> fst (redeem_points ''+1 (234) 567-8901'' ''small''
        (snd (redeem_points ''+1 (234) 567-8901'' ''small''
           (single_customer_ledger ''+12345678901'' 100)))) = Inl InsufficientPoints"
proof -
  let ?l = "single_customer_ledger ''+12345678901'' 100"
  let ?a = "redeem_points ''+1 (234) 567-8901'' ''small'' ?l"
  have fmt: "formatPhoneNumber ''+1 (234) 567-8901'' = ''+12345678901''"
    by (simp add: formatPhoneNumber_def notDigitOrPlus_def isDigit_def)
  have "fst ?a = Inr (0, 100) \<and> customers (snd ?a) = [''+12345678901'' \<mapsto> customer_with 0]
      \<and> purchases (snd ?a) = []
      \<and> redemptions (snd ?a) = [\<lparr>createdAt = serverTimestamp, customerPhone = ''+12345678901'',
                          tier = ''small'', pointsSpent = Some 100\<rparr>]
      \<and> redeem_points ''+1 (234) 567-8901'' ''small'' (snd ?a) = (Inl InsufficientPoints, snd ?a)"
    using redeem_points_small_at_100 [of "''+12345678901''" "''+1 (234) 567-8901''" ?l
        "customer_with 100" "fst ?a" "snd ?a"]
    by (simp add: fmt single_customer_ledger_def customer_with_def)
  then show ?thesis
    by (simp add: prod_eq_iff ledger.equality)
qed

end
